theory Spec2Isabelle
  imports Complex_Main "HOL-Library.AList"
begin

section \<open>Python values\<close>

text \<open>
  The values that reach \<^verbatim>\<open>ConfigBase\<close> (module \<^verbatim>\<open>argetype/__init__.py\<close>):
  defaults written in a class body, type annotations, and the values a parse or a call
  produces. The builtin classes are named one by one, because the source tests
  \<^verbatim>\<open>typ is bool\<close> by identity; \<open>TEmpty\<close> is \<^verbatim>\<open>inspect.Parameter.empty\<close>, the class
  that \<^verbatim>\<open>inspect.signature\<close> reports for a missing default or annotation. A nested
  class carries what \<^verbatim>\<open>typing.get_type_hints\<close> and \<^verbatim>\<open>vars\<close> return for it. A float is
  held by its exact value, a rational; \<open>PSelf\<close> is a reference to the settings object.
\<close>

datatype tyname = TBool | TInt | TFloat | TStr | TNoneType | TEmpty

datatype pyval =
    PNone
  | PBool bool
  | PInt int
  | PFloat rat
  | PStr string
  | PType tyname
  | PClass "(string \<times> pyval) list" "(string \<times> pyval) list"
  | PFunction
  | PSelf

text \<open>Exceptions are values. \<open>Unmodelled\<close> is no Python exception: it marks an input on
  which this development says nothing about the behaviour of the program.\<close>

datatype pyerror =
    ValueError | TypeError | IndexError | KeyError | SyntaxError
  | ArgumentError | SystemExit | Unmodelled

text \<open>\<^verbatim>\<open>bool(v)\<close>, as \<^verbatim>\<open>not(default)\<close> and \<^verbatim>\<open>bool(default)\<close> compute it.\<close>

fun truthy :: "pyval \<Rightarrow> bool" where
  "truthy PNone = False"
| "truthy (PBool b) = b"
| "truthy (PInt i) = (i \<noteq> 0)"
| "truthy (PFloat q) = (q \<noteq> 0)"
| "truthy (PStr s) = (s \<noteq> [])"
| "truthy (PType t) = True"
| "truthy (PClass h v) = True"
| "truthy PFunction = True"
| "truthy PSelf = True"

text \<open>\<^verbatim>\<open>isinstance(v, type)\<close>\<close>

fun is_type :: "pyval \<Rightarrow> bool" where
  "is_type (PType t) = True"
| "is_type (PClass h v) = True"
| "is_type v = False"

section \<open>The argument-spec builder\<close>

text \<open>
  An argument spec is the pair the source builds: the flag string and the keyword
  dictionary later handed to \<^verbatim>\<open>parser.add_argument\<close>.
  \<^verbatim>\<open>
  @staticmethod
  def add_arg_format(name, default, typ, positional):
      if typ is bool:
          return (f'--{name}', {'default': default, 'action': 'store_const',
                                'const': not(default)})
      else:
          return (name if positional else f'--{name}',
                  {'default': default, 'type': typ})
  \<close>
\<close>

type_synonym kwargs = "(string \<times> pyval) list"
type_synonym argspec = "string \<times> kwargs"

definition add_arg_format :: "string \<Rightarrow> pyval \<Rightarrow> pyval \<Rightarrow> bool \<Rightarrow> argspec" where
  "add_arg_format name dflt typ positional =
     (if typ = PType TBool
      then (''--'' @ name,
            [(''default'', dflt), (''action'', PStr ''store_const''),
             (''const'', PBool (\<not> truthy dflt))])
      else (if positional then name else ''--'' @ name,
            [(''default'', dflt), (''type'', typ)]))"

text \<open>
  Every value of \<open>pyval\<close> has a truth value, so on these the builder always returns
  and \<open>add_arg_format\<close> is a plain function. The method itself takes any object for
  default, and \<^verbatim>\<open>not(default)\<close> calls the object's \<^verbatim>\<open>__bool__\<close> (or \<^verbatim>\<open>__len__\<close>), which may
  raise: the truth value of an array of several elements, for one, is a \<^verbatim>\<open>ValueError\<close>.
  \<open>add_arg_format_any\<close> is the same method with such a default admitted: \<open>NoTruth e\<close>
  is an object whose truth value cannot be taken, the attempt raising \<open>e\<close>. The name
  is a string, the type any value and the fourth argument a boolean, as both callers
  pass them. The dictionary is evaluated entry by entry, so the exception of
  \<^verbatim>\<open>not(default)\<close> is the method's.
\<close>

datatype anyval = Value pyval | NoTruth pyerror

text \<open>\<^verbatim>\<open>not(default)\<close>\<close>

fun py_not :: "anyval \<Rightarrow> pyerror + bool" where
  "py_not (Value v) = Inr (\<not> truthy v)"
| "py_not (NoTruth e) = Inl e"

type_synonym anyspec = "string \<times> (string \<times> anyval) list"

definition add_arg_format_any ::
  "string \<Rightarrow> anyval \<Rightarrow> pyval \<Rightarrow> bool \<Rightarrow> pyerror + anyspec" where
  "add_arg_format_any name dflt typ positional =
     (if typ = PType TBool
      then (case py_not dflt of
              Inl e \<Rightarrow> Inl e
            | Inr c \<Rightarrow>
                Inr (''--'' @ name,
                     [(''default'', dflt), (''action'', Value (PStr ''store_const'')),
                      (''const'', Value (PBool c))]))
      else Inr (if positional then name else ''--'' @ name,
                [(''default'', dflt), (''type'', Value typ)]))"

text \<open>A spec over \<open>pyval\<close> read as a spec over \<open>anyval\<close>.\<close>

definition any_spec :: "argspec \<Rightarrow> anyspec" where
  "any_spec s = (fst s, map (\<lambda>(k, v). (k, Value v)) (snd s))"

text \<open>The two attributes the specification derives from a spec. \<^verbatim>\<open>argparse\<close> takes a
  flag for a positional when its first character is not the prefix character \<^verbatim>\<open>-\<close>; a
  spec is a toggle when its action is \<^verbatim>\<open>store_const\<close>.\<close>

definition isPositional :: "argspec \<Rightarrow> bool" where
  "isPositional s = (take 1 (fst s) \<noteq> ''-'')"

definition isBooleanToggle :: "argspec \<Rightarrow> bool" where
  "isBooleanToggle s = (map_of (snd s) ''action'' = Some (PStr ''store_const''))"

section \<open>The declaration and the settings object\<close>

text \<open>
  A settings declaration is a class deriving directly from \<^verbatim>\<open>ConfigBase\<close>. The source
  reads three things of it: \<^verbatim>\<open>typing.get_type_hints(cls)\<close> (\<open>hints\<close>, in declaration
  order), \<^verbatim>\<open>vars(cls)\<close> (\<open>cls_vars\<close>, in declaration order) and, when nothing is
  annotated, \<^verbatim>\<open>inspect.signature(self.setup).parameters\<close> (\<open>setup_params\<close>: name, default
  and annotation of each parameter after the bound first one, with
  \<^verbatim>\<open>inspect.Parameter.empty\<close> where the parameter has none).
\<close>

record classdecl =
  hints :: "(string \<times> pyval) list"
  cls_vars :: "(string \<times> pyval) list"
  setup_params :: "(string \<times> pyval \<times> pyval) list"

text \<open>\<^verbatim>\<open>self._settings\<close> is a list of specs, or an \<^verbatim>\<open>OrderedDict\<close> from group name to a
  list of specs.\<close>

datatype spec_coll = Flat "argspec list" | Grouped "(string \<times> argspec list) list"

text \<open>What \<^verbatim>\<open>argparse\<close> keeps of a registered argument (see the parser section).\<close>

datatype action_kind = Store | StoreConst | Help

record action =
  option_strings :: "string list"
  dest :: string
  a_kind :: action_kind
  a_default :: pyval
  a_type :: pyval
  a_const :: pyval

type_synonym namespace = "(string \<times> pyval) list"

text \<open>
  The settings object. The attributes that the methods of \<^verbatim>\<open>ConfigBase\<close> assign by name
  are fields (\<open>p_annotations\<close> is \<^verbatim>\<open>self._annotations\<close>, \<open>p_settings\<close> is
  \<^verbatim>\<open>self._settings\<close>, and so on; \<open>None\<close> while unassigned); \<open>call_params\<close> is the
  parameter list of the function that \<^verbatim>\<open>make_call\<close> installs as \<^verbatim>\<open>__call__\<close>; \<open>dict\<close>
  holds every other instance attribute.
\<close>

record facade =
  cls :: classdecl
  groups :: bool
  p_annotations :: "(string \<times> pyval) list option"
  p_annotation_groups :: "string list option"
  p_settings :: "spec_coll option"
  call_params :: "string list option"
  parser :: "action list option"
  group_parsers :: "(string \<times> argspec list) list option"
  settings :: "namespace option"
  dict :: "string \<rightharpoonup> pyval"

text \<open>The object as \<^verbatim>\<open>__init__\<close> finds it before its first statement.\<close>

definition new_object :: "classdecl \<Rightarrow> facade" where
  "new_object c =
     \<lparr>cls = c, groups = False, p_annotations = None, p_annotation_groups = None,
      p_settings = None, call_params = None, parser = None, group_parsers = None,
      settings = None, dict = Map.empty\<rparr>"

text \<open>
  The names \<^verbatim>\<open>ConfigBase\<close> itself defines or assigns on the object. An attribute of one
  of these names written through \<^verbatim>\<open>__setattr__\<close> with a computed name would replace a
  part of the machinery; the effect of such a write is not modelled.
\<close>

definition machinery_names :: "string list" where
  "machinery_names =
     [''groups'', ''_annotations'', ''_annotation_groups'', ''_settings'', ''parser'',
      ''group_parsers'', ''settings'', ''setup'', ''add_arg_format'', ''set_settings'',
      ''make_call'', ''make_parser'', ''parse_args'']"

definition reserved :: "string \<Rightarrow> bool" where
  "reserved name = (name \<in> set machinery_names \<or> take 2 name = ''__'')"

text \<open>
  A class body may bind names that start with two underscores. Python itself leaves
  \<^verbatim>\<open>__module__\<close>, \<^verbatim>\<open>__doc__\<close> and the like in \<^verbatim>\<open>vars(cls)\<close>; any other such name is a
  special method or attribute (\<^verbatim>\<open>__setattr__\<close>, \<^verbatim>\<open>__getattribute__\<close>, \<^verbatim>\<open>__call__\<close>,
  \<^verbatim>\<open>__slots__\<close>, ...) that changes what attribute access, assignment and calls do. A
  class that binds one is not modelled.
\<close>

definition bookkeeping_names :: "string list" where
  "bookkeeping_names =
     [''__module__'', ''__qualname__'', ''__doc__'', ''__annotations__'', ''__dict__'',
      ''__weakref__'', ''__firstlineno__'', ''__static_attributes__'']"

definition plain_class :: "classdecl \<Rightarrow> bool" where
  "plain_class c =
     list_all (\<lambda>(k, v). k \<in> set bookkeeping_names \<or> take 2 k \<noteq> ''__'') (cls_vars c)"

text \<open>A method of \<^verbatim>\<open>ConfigBase\<close> that the source reaches as \<^verbatim>\<open>self.name\<close> is that
  method unless the class or the object binds the name to something else; where they
  do, the call is not modelled.\<close>

definition rebinds :: "facade \<Rightarrow> string \<Rightarrow> bool" where
  "rebinds self name =
     (map_of (cls_vars (cls self)) name \<noteq> None \<or> dict self name \<noteq> None
      \<or> \<not> plain_class (cls self))"

text \<open>
  Reading an attribute that was never assigned ends in \<^verbatim>\<open>__getattr__\<close>:
  \<^verbatim>\<open>
  def __getattr__(self, name):
      if 'settings' in self.__dict__ and name in self.settings:
          return self.settings.__getattribute__(name)
      else:
          return self.__dict__[name]
  \<close>
  which raises \<^verbatim>\<open>KeyError\<close>, unless the class or the parsed namespace has the name; the
  source never reads its own attributes in such a state, and it is not modelled.
\<close>

definition missing_attr :: "facade \<Rightarrow> string \<Rightarrow> pyerror" where
  "missing_attr self name =
     (if rebinds self name then Unmodelled
      else (case settings self of
              None \<Rightarrow> KeyError
            | Some n \<Rightarrow> if map_of n name = None then KeyError else Unmodelled))"

text \<open>\<^verbatim>\<open>self.__setattr__(attr, value)\<close> with a computed name.\<close>

definition setattr_self :: "facade \<Rightarrow> string \<Rightarrow> pyval \<Rightarrow> pyerror + facade" where
  "setattr_self self attr v =
     (if reserved attr \<or> rebinds self ''__setattr__'' then Inl Unmodelled
      else Inr (self\<lparr>dict := (dict self)(attr \<mapsto> v)\<rparr>))"

section \<open>Introspection: \<^verbatim>\<open>setup\<close>\<close>

text \<open>
  The list comprehension that both the top level and every nested group run:
  \<^verbatim>\<open>
  [self.add_arg_format(p, cls_vars[p] if p in cls_vars else None,
                       annotations[p], p not in cls_vars)
   for p in annotations]
  \<close>
\<close>

definition field_specs ::
  "(string \<times> pyval) list \<Rightarrow> (string \<times> pyval) list \<Rightarrow> argspec list" where
  "field_specs annotations vs =
     map (\<lambda>(p, t). add_arg_format p (case map_of vs p of Some d \<Rightarrow> d | None \<Rightarrow> PNone)
                       t (map_of vs p = None))
         annotations"

text \<open>\<^verbatim>\<open>typing.get_type_hints(c)\<close> and \<^verbatim>\<open>vars(c)\<close> of a class found among the class
  attributes. A builtin class has no type hints, so its \<^verbatim>\<open>vars\<close> are never looked at.\<close>

fun hints_of :: "pyval \<Rightarrow> (string \<times> pyval) list" where
  "hints_of (PClass h v) = h"
| "hints_of c = []"

fun vars_of :: "pyval \<Rightarrow> (string \<times> pyval) list" where
  "vars_of (PClass h v) = v"
| "vars_of c = []"

text \<open>
  \<^verbatim>\<open>
  for annot_grp in annotation_groups:
      grp_annotations = typing.get_type_hints(cls_vars[annot_grp])
      grp_cls_vars = vars(cls_vars[annot_grp])
      self._settings[annot_grp] = [ ... ]
  \<close>
  An assignment to a key of an \<^verbatim>\<open>OrderedDict\<close> keeps the key's place when it is there
  and appends it otherwise, which is \<open>AList.update\<close>.
\<close>

fun group_specs ::
  "(string \<times> pyval) list \<Rightarrow> (string \<times> argspec list) list \<Rightarrow> (string \<times> argspec list) list"
where
  "group_specs [] od = od"
| "group_specs ((annot_grp, c) # rest) od =
     group_specs rest (AList.update annot_grp (field_specs (hints_of c) (vars_of c)) od)"

text \<open>
  \<^verbatim>\<open>ConfigBase.setup\<close>, here \<open>setup_config\<close>. The groups are the class attributes whose
  value is a class, kept here with their value. The expression
  \<^verbatim>\<open>OrderedDict(('default', self._settings)) if self._settings else OrderedDict()\<close>
  hands the constructor a pair where it expects a sequence of pairs: its first element
  is the string \<^verbatim>\<open>'default'\<close>, seven characters and not two, and the constructor raises
  \<^verbatim>\<open>ValueError\<close>. In the signature fallback the fourth argument is
  \<^verbatim>\<open>not(bool(sig.parameters[p].default))\<close>. The method looks \<^verbatim>\<open>add_arg_format\<close> up on the
  object; a class that rebinds that name is not modelled.
\<close>

definition setup_config :: "facade \<Rightarrow> pyerror + facade" where
  "setup_config self =
     (let cv = cls_vars (cls self);
          annotations = hints (cls self);
          annotation_groups = filter (\<lambda>(attr, v). is_type v) cv;
          self1 = self\<lparr>p_annotations := Some annotations,
                       p_annotation_groups := Some (map fst annotation_groups)\<rparr>
      in if rebinds self ''add_arg_format'' then Inl Unmodelled
         else if \<not> (annotations = [] \<and> annotation_groups = []) then
           (let s = field_specs annotations cv
            in if annotation_groups \<noteq> [] then
                 (if s \<noteq> [] then Inl ValueError
                  else Inr (self1\<lparr>groups := True,
                                  p_settings := Some (Grouped (group_specs annotation_groups []))\<rparr>))
               else Inr (self1\<lparr>p_settings := Some (Flat s)\<rparr>))
         else Inr (self1\<lparr>p_settings := Some (Flat
                     (map (\<lambda>(p, d, a). add_arg_format p d a (\<not> truthy d))
                          (setup_params (cls self))))\<rparr>))"

section \<open>The synthesized callable: \<^verbatim>\<open>make_call\<close> and \<^verbatim>\<open>set_settings\<close>\<close>

text \<open>
  \<^verbatim>\<open>
  sorted(self._settings, key=lambda x: x[1]['default'] is None, reverse=True)
  \<close>
  The key is a boolean and the sort is stable, also under \<^verbatim>\<open>reverse=True\<close>: the specs
  whose default is \<^verbatim>\<open>None\<close> come first, each part in its former order.
\<close>

definition default_is_None :: "argspec \<Rightarrow> bool" where
  "default_is_None x = (map_of (snd x) ''default'' = Some PNone)"

definition sorted_settings :: "argspec list \<Rightarrow> argspec list" where
  "sorted_settings ss = filter default_is_None ss @ filter (\<lambda>x. \<not> default_is_None x) ss"

text \<open>\<^verbatim>\<open>s[0].replace('-','')\<close>\<close>

definition strip_hyphens :: "string \<Rightarrow> string" where
  "strip_hyphens s = filter (\<lambda>c. c \<noteq> CHR ''-'') s"

text \<open>
  The source compiles \<^verbatim>\<open>def set_variables(self, {variables}): self.set_settings(locals())\<close>.
  For parameter names that are plain identifiers the compiler accepts the text unless a
  name occurs twice (\<^verbatim>\<open>self\<close> included), which is a \<^verbatim>\<open>SyntaxError\<close>. What the compiler
  makes of any other text between the parentheses is not modelled.
\<close>

definition ident_start :: "char \<Rightarrow> bool" where
  "ident_start c = (c \<in> set ''_abcdefghijklmnopqrstuvwxyzABCDEFGHIJKLMNOPQRSTUVWXYZ'')"

definition ident_char :: "char \<Rightarrow> bool" where
  "ident_char c = (ident_start c \<or> c \<in> set ''0123456789'')"

definition py_keywords :: "string list" where
  "py_keywords =
     [''False'', ''None'', ''True'', ''and'', ''as'', ''assert'', ''async'', ''await'',
      ''break'', ''class'', ''continue'', ''def'', ''del'', ''elif'', ''else'', ''except'',
      ''finally'', ''for'', ''from'', ''global'', ''if'', ''import'', ''in'', ''is'',
      ''lambda'', ''nonlocal'', ''not'', ''or'', ''pass'', ''raise'', ''return'', ''try'',
      ''while'', ''with'', ''yield'', ''__debug__'']"

definition plain_identifier :: "string \<Rightarrow> bool" where
  "plain_identifier s =
     (case s of [] \<Rightarrow> False
      | c # cs \<Rightarrow> ident_start c \<and> list_all ident_char cs \<and> s \<notin> set py_keywords)"

definition compile_def :: "string list \<Rightarrow> pyerror + string list" where
  "compile_def variables =
     (if \<not> list_all plain_identifier variables then Inl Unmodelled
      else if \<not> distinct (''self'' # variables) then Inl SyntaxError
      else Inr variables)"

text \<open>
  \<^verbatim>\<open>make_call\<close>. Over a list of specs the key function raises \<^verbatim>\<open>KeyError\<close> on a spec
  with no \<^verbatim>\<open>'default'\<close>. Over an \<^verbatim>\<open>OrderedDict\<close> the iteration yields the group names,
  and the key function raises on the first: \<^verbatim>\<open>x[1]\<close> is \<^verbatim>\<open>IndexError\<close> on a name shorter
  than two characters, and \<^verbatim>\<open>x[1]['default']\<close> is \<^verbatim>\<open>TypeError\<close> otherwise. An attribute
  the object does not have is the error of \<open>missing_attr\<close>.
\<close>

definition make_call :: "facade \<Rightarrow> pyerror + facade" where
  "make_call self =
     (if \<not> plain_class (cls self) then Inl Unmodelled else
      case p_settings self of
        None \<Rightarrow> Inl (missing_attr self ''_settings'')
      | Some (Grouped []) \<Rightarrow>
          (case compile_def [] of Inl e \<Rightarrow> Inl e
           | Inr ps \<Rightarrow> Inr (self\<lparr>call_params := Some ps\<rparr>))
      | Some (Grouped ((g, ss) # rest)) \<Rightarrow>
          (if length g < 2 then Inl IndexError else Inl TypeError)
      | Some (Flat ss) \<Rightarrow>
          (if list_ex (\<lambda>x. map_of (snd x) ''default'' = None) ss then Inl KeyError
           else (case compile_def (map (\<lambda>s. strip_hyphens (fst s)) (sorted_settings ss)) of
                   Inl e \<Rightarrow> Inl e
                 | Inr ps \<Rightarrow> Inr (self\<lparr>call_params := Some ps\<rparr>))))"

text \<open>
  \<^verbatim>\<open>
  def set_settings(self, vardict):
      for attr in vardict:
          self.__setattr__(attr, vardict[attr])
  \<close>
\<close>

fun set_settings :: "facade \<Rightarrow> (string \<times> pyval) list \<Rightarrow> pyerror + facade" where
  "set_settings self [] = Inr self"
| "set_settings self ((attr, v) # vardict) =
     (case setattr_self self attr v of
        Inl e \<Rightarrow> Inl e
      | Inr self' \<Rightarrow> set_settings self' vardict)"

text \<open>
  Binding the arguments of a call \<^verbatim>\<open>obj(*args, **kwargs)\<close> to the parameters of
  \<^verbatim>\<open>set_variables(self, p1, ..., pn)\<close>, none of which has a default: too many positional
  arguments, a keyword that is no parameter or is already bound, and a parameter left
  unbound are each a \<^verbatim>\<open>TypeError\<close>. The result lists the parameters after \<^verbatim>\<open>self\<close> with
  their values, in the order of \<^verbatim>\<open>locals()\<close>.
\<close>

definition bind_args ::
  "string list \<Rightarrow> pyval list \<Rightarrow> (string \<times> pyval) list \<Rightarrow> pyerror + (string \<times> pyval) list"
where
  "bind_args params args kws =
     (let by_position = zip params args;
          bound = by_position @ kws
      in if \<not> distinct (map fst kws) then Inl Unmodelled
         else if length args > length params then Inl TypeError
         else if list_ex (\<lambda>(k, v). k = ''self'' \<or> k \<in> set (map fst by_position)
                                      \<or> k \<notin> set params) kws
           then Inl TypeError
         else if list_ex (\<lambda>p. map_of bound p = None) params then Inl TypeError
         else Inr (map (\<lambda>p. (p, the (map_of bound p))) params))"

text \<open>The call of the object: the body of the compiled function runs
  \<^verbatim>\<open>self.set_settings(locals())\<close>, and \<^verbatim>\<open>locals()\<close> starts with \<^verbatim>\<open>self\<close>.\<close>

definition call_object ::
  "facade \<Rightarrow> pyval list \<Rightarrow> (string \<times> pyval) list \<Rightarrow> pyerror + facade" where
  "call_object self args kws =
     (if \<not> plain_class (cls self) then Inl Unmodelled else
      case call_params self of
        None \<Rightarrow> Inl TypeError
      | Some params \<Rightarrow>
          (case bind_args params args kws of
             Inl e \<Rightarrow> Inl e
           | Inr bound \<Rightarrow>
               if rebinds self ''set_settings'' then Inl Unmodelled
               else set_settings self ((''self'', PSelf) # bound)))"

section \<open>The command-line parser\<close>

text \<open>
  \<^verbatim>\<open>argparse\<close> is Python's standard library, outside the repository. This section
  models the part of it that \<^verbatim>\<open>make_parser\<close> and \<^verbatim>\<open>parse_args\<close> drive: a parser made
  by \<^verbatim>\<open>ArgumentParser()\<close>, arguments registered from a flag and the two shapes of keyword
  dictionary that \<open>add_arg_format\<close> builds, and the parse of a token list in which every
  token that starts with \<^verbatim>\<open>-\<close> is a registered option string, written in full. On
  anything else (abbreviated options, \<^verbatim>\<open>--opt=value\<close>, \<^verbatim>\<open>--\<close>, negative numbers, single-dash
  flags, two arguments with one destination) the model answers \<open>Unmodelled\<close>. An error
  that \<^verbatim>\<open>argparse\<close> reports through \<^verbatim>\<open>parser.error\<close>, and the help option, end in
  \<^verbatim>\<open>SystemExit\<close>.
\<close>

subsection \<open>Calling a type on a token\<close>

definition is_digit :: "char \<Rightarrow> bool" where
  "is_digit c = (c \<in> set ''0123456789'')"

definition digits_value :: "string \<Rightarrow> int" where
  "digits_value ds = foldl (\<lambda>n c. 10 * n + (of_char c - 48)) 0 ds"

definition strip_sign :: "string \<Rightarrow> bool \<times> string" where
  "strip_sign s =
     (case s of
        [] \<Rightarrow> (False, [])
      | c # cs \<Rightarrow> if c = CHR ''-'' then (True, cs)
                  else if c = CHR ''+'' then (False, cs) else (False, s))"

text \<open>Printable ASCII other than the space and the underscore: a string of such
  characters is read by \<^verbatim>\<open>int\<close> as a sign and decimal digits or not at all.\<close>

definition solid_char :: "char \<Rightarrow> bool" where
  "solid_char c = (33 \<le> (of_char c :: nat) \<and> (of_char c :: nat) \<le> 126 \<and> c \<noteq> CHR ''_'')"

text \<open>\<^verbatim>\<open>int(s)\<close>. Strings over the interpreter's digit limit, with blanks, underscores or
  characters beyond ASCII are left out.\<close>

definition py_int :: "string \<Rightarrow> pyerror + pyval" where
  "py_int s =
     (let (neg, ds) = strip_sign s
      in if ds \<noteq> [] \<and> list_all is_digit ds then
           (if length ds > 4300 then Inl Unmodelled
            else Inr (PInt (if neg then - digits_value ds else digits_value ds)))
         else if list_all solid_char s then Inl ValueError
         else Inl Unmodelled)"

text \<open>
  \<^verbatim>\<open>float(s)\<close> on a sign, digits and at most one point. The decimal \<open>N / 10 ^ L\<close> is
  given as a float only when it is one exactly: when \<open>5 ^ L\<close> divides \<open>N\<close> and the
  quotient is below \<open>2 ^ 53\<close>. A decimal that would have to be rounded, a negative zero,
  and the other spellings (exponents, \<^verbatim>\<open>inf\<close>, \<^verbatim>\<open>nan\<close>, blanks, underscores) are left out.
\<close>

definition py_float :: "string \<Rightarrow> pyerror + pyval" where
  "py_float s =
     (if \<not> list_all (\<lambda>c. c \<in> set ''0123456789+-.'') s then Inl Unmodelled
      else
        (let (neg, r) = strip_sign s;
             ip = takeWhile (\<lambda>c. c \<noteq> CHR ''.'') r;
             fp = drop 1 (dropWhile (\<lambda>c. c \<noteq> CHR ''.'') r);
             N = digits_value (ip @ fp);
             L = length fp
         in if \<not> (list_all is_digit ip \<and> list_all is_digit fp \<and> ip @ fp \<noteq> [])
              then Inl ValueError
            else if 5 ^ L dvd N \<and> N div 5 ^ L < 2 ^ 53 \<and> L \<le> 1074 \<and> \<not> (neg \<and> N = 0)
              then Inr (PFloat ((if neg then - 1 else 1) * (of_int (N div 5 ^ L) / 2 ^ L)))
            else Inl Unmodelled))"

text \<open>\<^verbatim>\<open>typ(s)\<close> for the value registered as \<^verbatim>\<open>type\<close>; \<^verbatim>\<open>None\<close> stands for the identity.
  \<^verbatim>\<open>NoneType\<close> and \<^verbatim>\<open>inspect.Parameter.empty\<close> take no argument. What a class or a
  function of the user returns is not modelled.\<close>

fun call_type :: "pyval \<Rightarrow> string \<Rightarrow> pyerror + pyval" where
  "call_type PNone s = Inr (PStr s)"
| "call_type (PType TStr) s = Inr (PStr s)"
| "call_type (PType TInt) s = py_int s"
| "call_type (PType TFloat) s = py_float s"
| "call_type (PType TBool) s = Inr (PBool (s \<noteq> []))"
| "call_type (PType TNoneType) s = Inl TypeError"
| "call_type (PType TEmpty) s = Inl TypeError"
| "call_type (PClass h v) s = Inl Unmodelled"
| "call_type PFunction s = Inl Unmodelled"
| "call_type PSelf s = Inl Unmodelled"
| "call_type v s = Inl TypeError"

text \<open>\<^verbatim>\<open>ArgumentParser._get_value\<close>: a \<^verbatim>\<open>TypeError\<close> or \<^verbatim>\<open>ValueError\<close> of the conversion
  becomes the parser's error.\<close>

definition get_value :: "pyval \<Rightarrow> string \<Rightarrow> pyerror + pyval" where
  "get_value typ s =
     (case call_type typ s of
        Inl ValueError \<Rightarrow> Inl SystemExit
      | Inl TypeError \<Rightarrow> Inl SystemExit
      | r \<Rightarrow> r)"

subsection \<open>Registering arguments\<close>

definition help_action :: action where
  "help_action =
     \<lparr>option_strings = [''-h'', ''--help''], dest = ''==SUPPRESS=='', a_kind = Help,
      a_default = PStr ''==SUPPRESS=='', a_type = PNone, a_const = PNone\<rparr>"

definition ArgumentParser :: "action list" where
  "ArgumentParser = [help_action]"

text \<open>\<^verbatim>\<open>callable(type_func)\<close> for a registered \<^verbatim>\<open>type\<close>.\<close>

fun callable :: "pyval \<Rightarrow> bool" where
  "callable PNone = True"
| "callable (PType t) = True"
| "callable (PClass h v) = True"
| "callable PFunction = True"
| "callable PSelf = True"
| "callable v = False"

text \<open>The destination of \<^verbatim>\<open>--name\<close>: \<^verbatim>\<open>option_string.lstrip('-').replace('-', '_')\<close>.\<close>

definition option_dest :: "string \<Rightarrow> string" where
  "option_dest flag =
     map (\<lambda>c. if c = CHR ''-'' then CHR ''_'' else c) (dropWhile (\<lambda>c. c = CHR ''-'') flag)"

text \<open>
  \<^verbatim>\<open>parser.add_argument(setting[0], **setting[1])\<close>, in the order of \<^verbatim>\<open>argparse\<close>'s own
  checks: an empty flag fails on \<^verbatim>\<open>args[0][0]\<close>; an option with no name after its hyphens
  and a \<^verbatim>\<open>type\<close> that is not callable are \<^verbatim>\<open>ValueError\<close>; an option string registered
  before is \<^verbatim>\<open>ArgumentError\<close>.
\<close>

definition add_argument :: "action list \<Rightarrow> argspec \<Rightarrow> pyerror + action list" where
  "add_argument p setting =
     (let flag = fst setting; kw = snd setting;
          storing = (map fst kw = [''default'', ''type'']);
          toggling = (map fst kw = [''default'', ''action'', ''const'']
                      \<and> map_of kw ''action'' = Some (PStr ''store_const''));
          positional = (take 1 flag \<noteq> ''-'');
          d = (if positional then flag else option_dest flag);
          a = \<lparr>option_strings = (if positional then [] else [flag]), dest = d,
               a_kind = (if storing then Store else StoreConst),
               a_default = the (map_of kw ''default''),
               a_type = (if storing then the (map_of kw ''type'') else PNone),
               a_const = (if storing then PNone else the (map_of kw ''const''))\<rparr>
      in if flag = [] then Inl IndexError
         else if (positional \<and> toggling) \<or> \<not> (storing \<or> toggling) then Inl Unmodelled
         else if \<not> positional \<and> take 2 flag \<noteq> ''--'' then Inl Unmodelled
         else if d = [] then Inl ValueError
         else if storing \<and> \<not> callable (a_type a) then Inl ValueError
         else if list_ex (\<lambda>b. flag \<in> set (option_strings b)) p then Inl ArgumentError
         else if list_ex (\<lambda>b. dest b = d) p \<or> d = ''==SUPPRESS=='' \<or> a_type a = PSelf
                 \<or> a_default a = PStr ''==SUPPRESS=='' then Inl Unmodelled
         else Inr (p @ [a]))"

fun add_arguments :: "action list \<Rightarrow> argspec list \<Rightarrow> pyerror + action list" where
  "add_arguments p [] = Inr p"
| "add_arguments p (setting # rest) =
     (case add_argument p setting of
        Inl e \<Rightarrow> Inl e
      | Inr p' \<Rightarrow> add_arguments p' rest)"

text \<open>The groups of a grouped collection register on the one parser, group after group.\<close>

fun add_groups :: "action list \<Rightarrow> (string \<times> argspec list) list \<Rightarrow> pyerror + action list" where
  "add_groups p [] = Inr p"
| "add_groups p ((grp, ss) # rest) =
     (case add_arguments p ss of
        Inl e \<Rightarrow> Inl e
      | Inr p' \<Rightarrow> add_groups p' rest)"

text \<open>
  \<^verbatim>\<open>
  def make_parser(self, **kwargs):
      self.parser = argparse.ArgumentParser(**kwargs)
      if self.groups: self.group_parsers = {}
      for grp in self._settings:
          if self.groups:
              parser = self.parser.add_argument_group(grp)
              self.group_parsers[grp] = parser
          else:
              parser = self.parser
          for setting in (self._settings[grp] if self.groups else self._settings):
              parser.add_argument(setting[0], **setting[1])
          if not self.groups:
              break
  \<close>
  called with no keyword, as \<^verbatim>\<open>__init__\<close> calls it. An empty collection leaves the loop
  at once. A list under \<^verbatim>\<open>groups = True\<close> and an \<^verbatim>\<open>OrderedDict\<close> under \<^verbatim>\<open>groups = False\<close>,
  which \<open>setup_config\<close> never leaves behind, are not modelled. \<open>group_parsers\<close> keeps,
  for each group title, the specs registered under it.
\<close>

definition make_parser :: "facade \<Rightarrow> pyerror + facade" where
  "make_parser self =
     (let self1 = (if groups self then self\<lparr>group_parsers := Some []\<rparr> else self)
      in if \<not> plain_class (cls self) then Inl Unmodelled else
         case p_settings self of
           None \<Rightarrow> Inl (missing_attr self ''_settings'')
         | Some (Flat []) \<Rightarrow> Inr (self1\<lparr>parser := Some ArgumentParser\<rparr>)
         | Some (Grouped []) \<Rightarrow> Inr (self1\<lparr>parser := Some ArgumentParser\<rparr>)
         | Some (Flat ss) \<Rightarrow>
             (if groups self then Inl Unmodelled
              else (case add_arguments ArgumentParser ss of
                      Inl e \<Rightarrow> Inl e
                    | Inr p \<Rightarrow> Inr (self1\<lparr>parser := Some p\<rparr>)))
         | Some (Grouped gs) \<Rightarrow>
             (if \<not> groups self then Inl Unmodelled
              else (case add_groups ArgumentParser gs of
                      Inl e \<Rightarrow> Inl e
                    | Inr p \<Rightarrow> Inr (self1\<lparr>parser := Some p, group_parsers := Some gs\<rparr>))))"

subsection \<open>Parsing a token list\<close>

datatype tok_class = Arg | Opt action | Other

definition classify :: "action list \<Rightarrow> string \<Rightarrow> tok_class" where
  "classify p tok =
     (if take 1 tok \<noteq> ''-'' then Arg
      else (case find (\<lambda>a. tok \<in> set (option_strings a)) p of
              Some a \<Rightarrow> Opt a
            | None \<Rightarrow> Other))"

text \<open>The state of a parse: the namespace, the positionals not yet filled, the
  destinations of the options met, and whether a token was left over.\<close>

record pstate =
  ns :: namespace
  pending :: "action list"
  seen :: "string list"
  extras :: bool

text \<open>Every destination starts at its default; the first registration of a name wins.
  The help option has \<^verbatim>\<open>argparse.SUPPRESS\<close> for destination and leaves no attribute.\<close>

fun init_namespace :: "action list \<Rightarrow> namespace \<Rightarrow> namespace" where
  "init_namespace [] n = n"
| "init_namespace (a # as) n =
     init_namespace as
       (if dest a = ''==SUPPRESS=='' then n
        else if map_of n (dest a) = None then n @ [(dest a, a_default a)] else n)"

text \<open>
  One token after the other. An argument fills the next positional, or is left over when
  none remains. A \<^verbatim>\<open>store\<close> option takes the next token, which has to be an argument;
  a \<^verbatim>\<open>store_const\<close> option takes none and stores its constant; the help option exits.
\<close>

fun consume :: "action list \<Rightarrow> pstate \<Rightarrow> string list \<Rightarrow> pyerror + pstate" where
  "consume p st [] = Inr st"
| "consume p st (tok # rest) =
     (case classify p tok of
        Other \<Rightarrow> Inl Unmodelled
      | Arg \<Rightarrow>
          (case pending st of
             [] \<Rightarrow> consume p (st\<lparr>extras := True\<rparr>) rest
           | a # as \<Rightarrow>
               (case get_value (a_type a) tok of
                  Inl e \<Rightarrow> Inl e
                | Inr v \<Rightarrow>
                    consume p (st\<lparr>ns := AList.update (dest a) v (ns st),
                                   pending := as\<rparr>) rest))
      | Opt a \<Rightarrow>
          (case a_kind a of
             Help \<Rightarrow> Inl SystemExit
           | StoreConst \<Rightarrow>
               consume p (st\<lparr>ns := AList.update (dest a) (a_const a) (ns st),
                              seen := dest a # seen st\<rparr>) rest
           | Store \<Rightarrow>
               (case rest of
                  [] \<Rightarrow> Inl SystemExit
                | arg # rest' \<Rightarrow>
                    (case classify p arg of
                       Other \<Rightarrow> Inl Unmodelled
                     | Opt b \<Rightarrow> Inl SystemExit
                     | Arg \<Rightarrow>
                         (case get_value (a_type a) arg of
                            Inl e \<Rightarrow> Inl e
                          | Inr v \<Rightarrow>
                              consume p (st\<lparr>ns := AList.update (dest a) v (ns st),
                                             seen := dest a # seen st\<rparr>) rest')))))"

text \<open>After the tokens: an option that was not met, whose destination is an attribute of
  the namespace and whose default is a string, has the default converted by its type.\<close>

fun convert_defaults :: "action list \<Rightarrow> string list \<Rightarrow> namespace \<Rightarrow> pyerror + namespace" where
  "convert_defaults [] sn n = Inr n"
| "convert_defaults (a # as) sn n =
     (if dest a \<in> set sn \<or> option_strings a = [] \<or> map_of n (dest a) = None
        then convert_defaults as sn n
      else (case a_default a of
              PStr s \<Rightarrow>
                (case get_value (a_type a) s of
                   Inl e \<Rightarrow> Inl e
                 | Inr v \<Rightarrow> convert_defaults as sn (AList.update (dest a) v n))
            | v \<Rightarrow> convert_defaults as sn n))"

text \<open>\<^verbatim>\<open>parser.parse_args(args)\<close>: a positional left unfilled and a token left over are
  errors of the parser.\<close>

definition argparse_parse_args :: "action list \<Rightarrow> string list \<Rightarrow> pyerror + namespace" where
  "argparse_parse_args p toks =
     (if list_ex (\<lambda>t. classify p t = Other) toks then Inl Unmodelled
      else
        (case consume p \<lparr>ns = init_namespace p [],
                         pending = filter (\<lambda>a. option_strings a = []) p,
                         seen = [], extras = False\<rparr> toks of
           Inl e \<Rightarrow> Inl e
         | Inr st \<Rightarrow>
             (case convert_defaults p (seen st) (ns st) of
                Inl e \<Rightarrow> Inl e
              | Inr n \<Rightarrow>
                  if pending st \<noteq> [] then Inl SystemExit
                  else if extras st then Inl SystemExit
                  else Inr n)))"

section \<open>Parsing and construction: \<^verbatim>\<open>parse_args\<close> and \<^verbatim>\<open>__init__\<close>\<close>

text \<open>
  The loop of \<^verbatim>\<open>parse_args\<close> that copies the parsed values back:
  \<^verbatim>\<open>
  for a in self._annotations:
      if a in self.settings:
          self.__setattr__(a, self.settings.__getattribute__(a))
  \<close>
  \<^verbatim>\<open>self.settings\<close> is read again at every turn.
\<close>

fun copy_back :: "facade \<Rightarrow> string list \<Rightarrow> pyerror + facade" where
  "copy_back self [] = Inr self"
| "copy_back self (a # as) =
     (case settings self of
        None \<Rightarrow> Inl KeyError
      | Some n \<Rightarrow>
          (case map_of n a of
             None \<Rightarrow> copy_back self as
           | Some v \<Rightarrow>
               (case setattr_self self a v of
                  Inl e \<Rightarrow> Inl e
                | Inr self' \<Rightarrow> copy_back self' as)))"

text \<open>
  \<^verbatim>\<open>
  def parse_args(self, args):
      self.settings = self.parser.parse_args(args)
      for a in self._annotations: ...
      return self.settings
  \<close>
  \<open>argv\<close> is \<^verbatim>\<open>sys.argv[1:]\<close>, which \<^verbatim>\<open>argparse\<close> reads when \<^verbatim>\<open>args\<close> is \<^verbatim>\<open>None\<close>. The
  result is the object and the returned namespace.
\<close>

definition parse_args ::
  "string list \<Rightarrow> facade \<Rightarrow> string list option \<Rightarrow> pyerror + facade \<times> namespace" where
  "parse_args argv self args =
     (if \<not> plain_class (cls self) then Inl Unmodelled else
      case parser self of
        None \<Rightarrow> Inl (missing_attr self ''parser'')
      | Some p \<Rightarrow>
          (case argparse_parse_args p (case args of None \<Rightarrow> argv | Some l \<Rightarrow> l) of
             Inl e \<Rightarrow> Inl e
           | Inr n \<Rightarrow>
               (case p_annotations self of
                  None \<Rightarrow> Inl (missing_attr self ''_annotations'')
                | Some ann \<Rightarrow>
                    (case copy_back (self\<lparr>settings := Some n\<rparr>) (map fst ann) of
                       Inl e \<Rightarrow> Inl e
                     | Inr self' \<Rightarrow>
                         (case settings self' of
                            None \<Rightarrow> Inl KeyError
                          | Some n' \<Rightarrow> Inr (self', n'))))))"

text \<open>
  \<^verbatim>\<open>
  def __init__(self, parse=True):
      self.groups = False
      self.setup()
      self.make_call()
      self.make_parser()
      if parse:
          self.parse_args(None if isinstance(parse, bool) else parse)
  \<close>
  \<^verbatim>\<open>parse\<close> is a boolean or a list of tokens; an empty list is false. A subclass may
  override \<^verbatim>\<open>setup\<close> to declare its settings as parameters; the override is taken to do
  what the docstring asks, to call \<^verbatim>\<open>super().setup()\<close> and nothing else, and it is called
  with no argument, so a parameter without default is a \<^verbatim>\<open>TypeError\<close>. A class that
  rebinds another method of the machinery is not modelled.
\<close>

datatype parse_arg = ParseBool bool | ParseList "string list"

fun parse_truthy :: "parse_arg \<Rightarrow> bool" where
  "parse_truthy (ParseBool b) = b"
| "parse_truthy (ParseList l) = (l \<noteq> [])"

fun parse_tokens :: "parse_arg \<Rightarrow> string list option" where
  "parse_tokens (ParseBool b) = None"
| "parse_tokens (ParseList l) = Some l"

definition init :: "string list \<Rightarrow> classdecl \<Rightarrow> parse_arg \<Rightarrow> pyerror + facade" where
  "init argv c parse =
     (if list_ex (\<lambda>m. map_of (cls_vars c) m \<noteq> None) [''make_call'', ''make_parser'', ''parse_args'']
         \<or> map_of (cls_vars c) ''setup'' \<notin> {None, Some PFunction}
        then Inl Unmodelled
      else if list_ex (\<lambda>(p, d, a). d = PType TEmpty) (setup_params c) then Inl TypeError
      else
        (case setup_config (new_object c) of
           Inl e \<Rightarrow> Inl e
         | Inr s1 \<Rightarrow>
             (case make_call s1 of
                Inl e \<Rightarrow> Inl e
              | Inr s2 \<Rightarrow>
                  (case make_parser s2 of
                     Inl e \<Rightarrow> Inl e
                   | Inr s3 \<Rightarrow>
                       if parse_truthy parse
                       then (case parse_args argv s3 (parse_tokens parse) of
                               Inl e \<Rightarrow> Inl e
                             | Inr (s4, n) \<Rightarrow> Inr s4)
                       else Inr s3))))"

section \<open>Using a declaration\<close>

text \<open>The two ways in after \<^verbatim>\<open>s = Settings(parse=False)\<close>: \<^verbatim>\<open>s.parse_args(toks)\<close> and the
  call \<^verbatim>\<open>s(*args, **kws)\<close>.\<close>

definition parse_fresh :: "classdecl \<Rightarrow> string list \<Rightarrow> pyerror + facade \<times> namespace" where
  "parse_fresh c toks =
     (case init [] c (ParseBool False) of
        Inl e \<Rightarrow> Inl e
      | Inr s \<Rightarrow> parse_args [] s (Some toks))"

definition call_fresh ::
  "classdecl \<Rightarrow> pyval list \<Rightarrow> (string \<times> pyval) list \<Rightarrow> pyerror + facade" where
  "call_fresh c args kws =
     (case init [] c (ParseBool False) of
        Inl e \<Rightarrow> Inl e
      | Inr s \<Rightarrow> call_object s args kws)"

text \<open>\<^verbatim>\<open>class S(ConfigBase): a: int; b: float = 0.1; c: str = 'a'\<close>. The float \<^verbatim>\<open>0.1\<close> is
  the double \<open>3602879701896397 / 2 ^ 55\<close>.\<close>

definition scenario1 :: classdecl where
  "scenario1 =
     \<lparr>hints = [(''a'', PType TInt), (''b'', PType TFloat), (''c'', PType TStr)],
      cls_vars = [(''b'', PFloat (3602879701896397 / 36028797018963968)), (''c'', PStr ''a'')],
      setup_params = []\<rparr>"

text \<open>\<^verbatim>\<open>class S(ConfigBase): flag: bool = d\<close>\<close>

definition flag_decl :: "bool \<Rightarrow> classdecl" where
  "flag_decl d =
     \<lparr>hints = [(''flag'', PType TBool)], cls_vars = [(''flag'', PBool d)], setup_params = []\<rparr>"

text \<open>\<^verbatim>\<open>class S(ConfigBase): x: 5\<close>, an annotation that is no type.\<close>

definition malformed_decl :: classdecl where
  "malformed_decl = \<lparr>hints = [(''x'', PInt 5)], cls_vars = [], setup_params = []\<rparr>"

text \<open>\<^verbatim>\<open>class S(ConfigBase): def setup(_, n: int = 0, m: int = 7): super().setup()\<close> and
  the same with \<^verbatim>\<open>m: int\<close> left without default.\<close>

definition fallback_decl :: classdecl where
  "fallback_decl =
     \<lparr>hints = [], cls_vars = [(''setup'', PFunction)],
      setup_params = [(''n'', PInt 0, PType TInt), (''m'', PInt 7, PType TInt)]\<rparr>"

definition fallback_required_decl :: classdecl where
  "fallback_required_decl =
     \<lparr>hints = [], cls_vars = [(''setup'', PFunction)],
      setup_params = [(''n'', PInt 0, PType TInt), (''m'', PType TEmpty, PType TInt)]\<rparr>"

text \<open>\<^verbatim>\<open>class S(ConfigBase): a: int = 1; class Net: host: str = 'localhost'; port: int = 8080\<close>\<close>

definition net_group :: pyval where
  "net_group =
     PClass [(''host'', PType TStr), (''port'', PType TInt)]
            [(''host'', PStr ''localhost''), (''port'', PInt 8080)]"

definition mixed_decl :: classdecl where
  "mixed_decl =
     \<lparr>hints = [(''a'', PType TInt)],
      cls_vars = [(''a'', PInt 1), (''Net'', net_group)],
      setup_params = []\<rparr>"

text \<open>A top-level \<^verbatim>\<open>host: str = 'h'\<close> beside the group \<^verbatim>\<open>Net\<close>, whose field \<^verbatim>\<open>host\<close> has the
  same name; the same with the top-level field renamed; and two groups that share the
  field name \<^verbatim>\<open>x\<close> under no top-level field.\<close>

definition colliding_decl :: classdecl where
  "colliding_decl =
     \<lparr>hints = [(''host'', PType TStr)],
      cls_vars = [(''host'', PStr ''h''), (''Net'', net_group)],
      setup_params = []\<rparr>"

definition renamed_decl :: classdecl where
  "renamed_decl =
     \<lparr>hints = [(''name'', PType TStr)],
      cls_vars = [(''name'', PStr ''h''), (''Net'', net_group)],
      setup_params = []\<rparr>"

definition two_groups_decl :: classdecl where
  "two_groups_decl =
     \<lparr>hints = [],
      cls_vars = [(''A'', PClass [(''x'', PType TInt)] [(''x'', PInt 1)]),
                  (''B'', PClass [(''x'', PType TStr)] [(''x'', PStr ''s'')])],
      setup_params = []\<rparr>"

text \<open>The attributes after the copy-back loop over \<open>names\<close> from a namespace \<open>n\<close>: a
  name of the list that the namespace has gets the namespace's value, every other name
  keeps what it had.\<close>

definition copied ::
  "(string \<rightharpoonup> pyval) \<Rightarrow> namespace \<Rightarrow> string list \<Rightarrow> string \<rightharpoonup> pyval" where
  "copied d n names =
     (\<lambda>a. if a \<in> set names \<and> map_of n a \<noteq> None then map_of n a else d a)"

text \<open>The object that \<^verbatim>\<open>S(parse=False)\<close> builds for \<open>flag_decl d\<close> (lemma
  \<open>init_flag_decl\<close> below).\<close>

definition flag_object :: "bool \<Rightarrow> facade" where
  "flag_object d =
     (new_object (flag_decl d))
       \<lparr>p_annotations := Some [(''flag'', PType TBool)], p_annotation_groups := Some [],
        p_settings := Some (Flat
          [(''--flag'', [(''default'', PBool d), (''action'', PStr ''store_const''),
                         (''const'', PBool (\<not> d))])]),
        call_params := Some [''flag''],
        parser := Some
          [help_action,
           \<lparr>option_strings = [''--flag''], dest = ''flag'', a_kind = StoreConst,
            a_default = PBool d, a_type = PNone, a_const = PBool (\<not> d)\<rparr>]\<rparr>"

text \<open>The situation of which the specification speaks when it asks for a declaration
  error: an annotated top-level field has the name of a field of a nested group.\<close>

definition top_level_collides :: "classdecl \<Rightarrow> bool" where
  "top_level_collides c =
     list_ex (\<lambda>(p, t). list_ex (\<lambda>(g, v). is_type v \<and> p \<in> set (map fst (hints_of v)))
                                (cls_vars c))
             (hints c)"

section \<open>Evaluation\<close>

lemmas rebinds_defs = rebinds_def plain_class_def bookkeeping_names_def

lemmas setup_defs =
  setup_config_def new_object_def rebinds_defs field_specs_def add_arg_format_def Let_def

lemmas make_call_defs =
  make_call_def sorted_settings_def default_is_None_def strip_hyphens_def compile_def_def
  plain_identifier_def ident_start_def ident_char_def py_keywords_def
  plain_class_def bookkeeping_names_def

lemmas make_parser_defs =
  make_parser_def add_argument_def ArgumentParser_def help_action_def option_dest_def Let_def
  plain_class_def bookkeeping_names_def

lemmas parse_defs =
  parse_args_def argparse_parse_args_def classify_def get_value_def
  py_int_def py_float_def strip_sign_def digits_value_def is_digit_def solid_char_def
  setattr_self_def reserved_def machinery_names_def plain_class_def bookkeeping_names_def

section \<open>The builder\<close>

text \<open>
  Claim C8. No spec that \<open>add_arg_format\<close> returns is both positional and a boolean
  toggle. For the type \<^verbatim>\<open>bool\<close> the flag is \<^verbatim>\<open>--name\<close> whatever the fourth argument says,
  also when the field has no default (default \<^verbatim>\<open>None\<close>, \<open>positional = True\<close>).
\<close>

theorem C8_toggle_never_positional:
  "\<not> (isPositional (add_arg_format name dflt typ positional)
        \<and> isBooleanToggle (add_arg_format name dflt typ positional))
   \<and> fst (add_arg_format name dflt (PType TBool) positional) = ''--'' @ name
   \<and> \<not> isPositional (add_arg_format name PNone (PType TBool) True)"
  by (simp add: add_arg_format_def isPositional_def isBooleanToggle_def)

text \<open>On a default that is a value, the method on any default is \<open>add_arg_format\<close>.\<close>

lemma add_arg_format_any_Value:
  "add_arg_format_any name (Value d) typ positional
     = Inr (any_spec (add_arg_format name d typ positional))"
  by (simp add: add_arg_format_any_def add_arg_format_def any_spec_def)

text \<open>
  Claim C7, as the source has it. For a type other than \<^verbatim>\<open>bool\<close> the builder returns a
  spec for every name, default and positional flag, a default without truth value
  included, and the spec carries the declared type itself under \<^verbatim>\<open>'type'\<close>, a usable type
  or not: nothing is degraded to \<^verbatim>\<open>str\<close>. For the type \<^verbatim>\<open>bool\<close> the builder evaluates
  \<^verbatim>\<open>not(default)\<close>: it raises exactly the exception that this raises, and otherwise
  returns a toggle spec, which has the negated default for constant and no \<^verbatim>\<open>'type'\<close>.
\<close>

theorem C7_builder_raises_only_in_not:
  "(typ \<noteq> PType TBool \<longrightarrow>
      (\<exists>flag kw. add_arg_format_any name dflt typ positional = Inr (flag, kw)
                 \<and> map_of kw ''type'' = Some (Value typ)))
   \<and> (typ = PType TBool \<longrightarrow>
      (case py_not dflt of
         Inl e \<Rightarrow> add_arg_format_any name dflt typ positional = Inl e
       | Inr c \<Rightarrow> (\<exists>flag kw. add_arg_format_any name dflt typ positional = Inr (flag, kw)
                        \<and> map_of kw ''type'' = None
                        \<and> map_of kw ''const'' = Some (Value (PBool c)))))"
  by (auto simp: add_arg_format_any_def split: sum.splits)

text \<open>A string field whose default has no truth value gets its spec; a boolean field
  with the default \<^verbatim>\<open>False\<close> gets the toggle with constant \<^verbatim>\<open>True\<close>.\<close>

theorem C7_builder_raises_only_in_not_witness:
  "add_arg_format_any ''x'' (NoTruth ValueError) (PType TStr) True
     = Inr (''x'', [(''default'', NoTruth ValueError), (''type'', Value (PType TStr))])
   \<and> add_arg_format_any ''flag'' (Value (PBool False)) (PType TBool) False
     = Inr (''--flag'', [(''default'', Value (PBool False)),
                         (''action'', Value (PStr ''store_const'')),
                         (''const'', Value (PBool True))])"
  using C7_builder_raises_only_in_not [of "PType TStr" "''x''" "NoTruth ValueError" True]
    C7_builder_raises_only_in_not [of "PType TBool" "''flag''" "Value (PBool False)" False]
  by (simp add: add_arg_format_any_def)

text \<open>
  Claim C7 as stated fails, in both halves. The builder raises: for a boolean field whose
  default has no truth value, \<^verbatim>\<open>not(default)\<close> raises and the builder with it. And the
  builder does not degrade: for the annotation \<^verbatim>\<open>x: 5\<close> the spec has the type \<^verbatim>\<open>5\<close>, not
  \<^verbatim>\<open>str\<close>; introspection hands that spec on unchanged, and the construction of the
  object ends in the \<^verbatim>\<open>ValueError\<close> with which \<^verbatim>\<open>add_argument\<close> refuses a type that is
  not callable.
\<close>

theorem C7_counterexample:
  "add_arg_format_any ''flag'' (NoTruth ValueError) (PType TBool) False = Inl ValueError
   \<and> add_arg_format_any ''x'' (Value PNone) (PInt 5) True
        = Inr (''x'', [(''default'', Value PNone), (''type'', Value (PInt 5))])
   \<and> map_of (snd (add_arg_format ''x'' PNone (PInt 5) True)) ''type'' = Some (PInt 5)
   \<and> map_of (snd (add_arg_format ''x'' PNone (PInt 5) True)) ''type'' \<noteq> Some (PType TStr)
   \<and> map_sum id p_settings (setup_config (new_object malformed_decl))
        = Inr (Some (Flat [(''x'', [(''default'', PNone), (''type'', PInt 5)])]))
   \<and> init [] malformed_decl (ParseBool False) = Inl ValueError"
  apply (simp add: add_arg_format_any_def)
  apply (simp add: setup_defs malformed_decl_def init_def)
  apply (simp add: make_call_defs)
  apply (simp add: make_parser_defs)
  done

section \<open>Introspection\<close>

text \<open>
  Claim C4 fails on the source. In the signature fallback the parameter \<^verbatim>\<open>n: int = 0\<close>,
  which has a default, gets the bare positional flag \<^verbatim>\<open>n\<close>, because its default is
  false; \<^verbatim>\<open>m: int = 7\<close> gets \<^verbatim>\<open>--m\<close>; and \<^verbatim>\<open>m: int\<close> with no default gets the optional
  flag \<^verbatim>\<open>--m\<close> with the class \<^verbatim>\<open>inspect.Parameter.empty\<close> for default, because that
  class is true. The first declaration is constructed without error, with these specs.
\<close>

theorem C4_fallback_positional_by_truthiness:
  "map_sum id p_settings (setup_config (new_object fallback_decl))
     = Inr (Some (Flat [(''n'', [(''default'', PInt 0), (''type'', PType TInt)]),
                        (''--m'', [(''default'', PInt 7), (''type'', PType TInt)])]))
   \<and> map_sum id p_settings (init [] fallback_decl (ParseBool False))
     = Inr (Some (Flat [(''n'', [(''default'', PInt 0), (''type'', PType TInt)]),
                        (''--m'', [(''default'', PInt 7), (''type'', PType TInt)])]))
   \<and> isPositional (''n'', [(''default'', PInt 0), (''type'', PType TInt)])
   \<and> map_sum id p_settings (setup_config (new_object fallback_required_decl))
     = Inr (Some (Flat [(''n'', [(''default'', PInt 0), (''type'', PType TInt)]),
                        (''--m'', [(''default'', PType TEmpty), (''type'', PType TInt)])]))
   \<and> \<not> isPositional (''--m'', [(''default'', PType TEmpty), (''type'', PType TInt)])"
  apply (simp add: setup_defs init_def fallback_decl_def fallback_required_decl_def
           isPositional_def)
  apply (simp add: make_call_defs)
  apply (simp add: make_parser_defs)
  done

text \<open>Every declaration with an annotated top-level field and a group ends in the
  \<^verbatim>\<open>ValueError\<close> of the \<^verbatim>\<open>OrderedDict\<close> constructor.\<close>

lemma setup_top_level_with_group:
  assumes "hints (cls s) \<noteq> []"
    and "list_ex (\<lambda>(a, v). is_type v) (cls_vars (cls s))"
    and "\<not> rebinds s ''add_arg_format''"
  shows "setup_config s = Inl ValueError"
  using assms
  by (auto simp add: setup_config_def Let_def field_specs_def list_ex_iff filter_empty_conv)

text \<open>
  Claim C3 fails on the source. For the declaration with the top-level field
  \<^verbatim>\<open>a: int = 1\<close> and the nested class \<^verbatim>\<open>Net\<close>, introspection raises \<^verbatim>\<open>ValueError\<close> and
  files nothing under \<^verbatim>\<open>'default'\<close>; so does the construction, whatever \<^verbatim>\<open>parse\<close> is.
\<close>

theorem C3_top_level_and_group_raises:
  "setup_config (new_object mixed_decl) = Inl ValueError
   \<and> init argv mixed_decl parse = Inl ValueError"
  by (simp add: setup_defs mixed_decl_def net_group_def init_def)

text \<open>An \<^verbatim>\<open>OrderedDict\<close> filled under names that are all different lists them in
  order.\<close>

lemma update_fresh_key:
  "k \<notin> fst ` set al \<Longrightarrow> AList.update k v al = al @ [(k, v)]"
  by (induction al) auto

lemma group_specs_distinct:
  "distinct (map fst gs) \<Longrightarrow> fst ` set gs \<inter> fst ` set od = {}
   \<Longrightarrow> group_specs gs od = od @ map (\<lambda>(g, c). (g, field_specs (hints_of c) (vars_of c))) gs"
proof (induction gs arbitrary: od)
  case Nil
  then show ?case by simp
next
  case (Cons gc gs)
  obtain g c where gc: "gc = (g, c)" by (cases gc)
  have fresh: "g \<notin> fst ` set od" using Cons.prems gc by auto
  have "group_specs gs (od @ [(g, field_specs (hints_of c) (vars_of c))])
        = (od @ [(g, field_specs (hints_of c) (vars_of c))])
          @ map (\<lambda>(g, c). (g, field_specs (hints_of c) (vars_of c))) gs"
    using Cons.prems gc by (intro Cons.IH) (auto simp: image_Un)
  then show ?case using fresh gc by (simp add: update_fresh_key)
qed

text \<open>
  Claim C5, as the source has it. Introspection compares no field names and knows no
  declaration error. Where no top-level field is annotated, every declaration with
  nested groups passes: the specs of each group are filed under the group's name, as
  the builder returns them, whether or not two groups use the same field name. (With
  an annotated top-level field the method does not get that far, see C3.)
\<close>

theorem C5_groups_filed_unchecked:
  assumes "hints (cls s) = []"
    and "gs = filter (\<lambda>(a, v). is_type v) (cls_vars (cls s))"
    and "gs \<noteq> []"
    and "distinct (map fst (cls_vars (cls s)))"
    and "\<not> rebinds s ''add_arg_format''"
  shows "setup_config s =
           Inr (s\<lparr>groups := True, p_annotations := Some [],
                  p_annotation_groups := Some (map fst gs),
                  p_settings := Some (Grouped
                    (map (\<lambda>(g, c). (g, field_specs (hints_of c) (vars_of c))) gs))\<rparr>)"
proof -
  have "distinct (map fst gs)"
    using assms(2,4) by (simp add: distinct_map_filter)
  then have "group_specs gs [] = map (\<lambda>(g, c). (g, field_specs (hints_of c) (vars_of c))) gs"
    using group_specs_distinct [of gs "[]"] by simp
  then show ?thesis
    using assms by (simp add: setup_config_def Let_def field_specs_def)
qed

text \<open>The groups \<^verbatim>\<open>A\<close> and \<^verbatim>\<open>B\<close> both have a field \<^verbatim>\<open>x\<close>: introspection files \<^verbatim>\<open>--x\<close> twice.\<close>

theorem C5_groups_filed_unchecked_witness:
  "map_sum id p_settings (setup_config (new_object two_groups_decl)) =
     Inr (Some (Grouped
       [(''A'', [(''--x'', [(''default'', PInt 1), (''type'', PType TInt)])]),
        (''B'', [(''--x'', [(''default'', PStr ''s''), (''type'', PType TStr)])])]))"
  using C5_groups_filed_unchecked [of "new_object two_groups_decl" "cls_vars two_groups_decl"]
  by (simp add: new_object_def two_groups_decl_def rebinds_defs field_specs_def add_arg_format_def)

text \<open>
  Claim C5 as stated fails: no collision is detected. The declaration whose top-level
  field \<^verbatim>\<open>host\<close> collides with the field \<^verbatim>\<open>host\<close> of the group \<^verbatim>\<open>Net\<close> ends in the
  \<^verbatim>\<open>ValueError\<close> of the \<^verbatim>\<open>OrderedDict\<close> constructor, and so does the declaration in which
  the top-level field is renamed and nothing collides: the outcome does not depend on
  the collision, and it is no error about the declaration.
\<close>

theorem C5_counterexample:
  "top_level_collides colliding_decl
   \<and> setup_config (new_object colliding_decl) = Inl ValueError
   \<and> \<not> top_level_collides renamed_decl
   \<and> setup_config (new_object renamed_decl) = Inl ValueError"
  by (simp add: setup_defs top_level_collides_def colliding_decl_def renamed_decl_def
        net_group_def)

section \<open>The synthesized callable\<close>

text \<open>The object that \<^verbatim>\<open>S(parse=False)\<close> builds for the declaration of scenario 1.\<close>

lemma init_scenario1:
  "init [] scenario1 (ParseBool False) =
     Inr ((new_object scenario1)
       \<lparr>p_annotations := Some (hints scenario1), p_annotation_groups := Some [],
        p_settings := Some (Flat
          [(''a'', [(''default'', PNone), (''type'', PType TInt)]),
           (''--b'', [(''default'', PFloat (3602879701896397 / 36028797018963968)),
                      (''type'', PType TFloat)]),
           (''--c'', [(''default'', PStr ''a''), (''type'', PType TStr)])]),
        call_params := Some [''a'', ''b'', ''c''],
        parser := Some
          [help_action,
           \<lparr>option_strings = [], dest = ''a'', a_kind = Store, a_default = PNone,
            a_type = PType TInt, a_const = PNone\<rparr>,
           \<lparr>option_strings = [''--b''], dest = ''b'', a_kind = Store,
            a_default = PFloat (3602879701896397 / 36028797018963968),
            a_type = PType TFloat, a_const = PNone\<rparr>,
           \<lparr>option_strings = [''--c''], dest = ''c'', a_kind = Store,
            a_default = PStr ''a'', a_type = PType TStr, a_const = PNone\<rparr>]\<rparr>)"
  apply (simp add: init_def scenario1_def setup_defs)
  apply (simp add: make_call_defs)
  apply (simp add: make_parser_defs)
  done

lemma call_scenario1_all_given:
  "map_sum id (\<lambda>s. map (dict s) [''a'', ''b'', ''c''])
        (call_fresh scenario1 [PInt 5] [(''b'', PFloat 2), (''c'', PStr ''a'')])
     = Inr [Some (PInt 5), Some (PFloat 2), Some (PStr ''a'')]"
  apply (simp add: call_fresh_def init_scenario1)
  apply (simp add: call_object_def bind_args_def new_object_def
       rebinds_defs scenario1_def setattr_self_def reserved_def machinery_names_def)
  done

lemma parse_scenario1_namespace:
  "map_sum id snd (parse_fresh scenario1 [''5'', ''--b'', ''2.0''])
     = Inr [(''a'', PInt 5), (''b'', PFloat 2), (''c'', PStr ''a'')]"
  apply (simp add: parse_fresh_def init_scenario1 new_object_def)
  apply (simp add: parse_defs help_action_def rebinds_defs scenario1_def)
  done

lemma parse_scenario1_attributes:
  "map_sum id (\<lambda>r. map (dict (fst r)) [''a'', ''b'', ''c''])
       (parse_fresh scenario1 [''5'', ''--b'', ''2.0''])
     = Inr [Some (PInt 5), Some (PFloat 2), Some (PStr ''a'')]"
  apply (simp add: parse_fresh_def init_scenario1 new_object_def)
  apply (simp add: parse_defs help_action_def rebinds_defs scenario1_def)
  done

text \<open>
  Claim C2 fails on the source. For the declaration of scenario 1 the parameters of the
  compiled function are \<^verbatim>\<open>a, b, c\<close> in that order, but none carries a default (the source
  notes \<^verbatim>\<open>TODO add default value\<close>), so the call \<^verbatim>\<open>s(5, b=2.0)\<close> raises \<^verbatim>\<open>TypeError\<close> for
  the missing \<^verbatim>\<open>c\<close> and sets nothing. Parsing \<^verbatim>\<open>['5', '--b', '2.0']\<close> gives \<^verbatim>\<open>a=5, b=2.0, c='a'\<close>.
\<close>

theorem C2_call_without_defaults_raises:
  "map_sum id call_params (init [] scenario1 (ParseBool False)) = Inr (Some [''a'', ''b'', ''c''])
   \<and> call_fresh scenario1 [PInt 5] [(''b'', PFloat 2)] = Inl TypeError
   \<and> map_sum id snd (parse_fresh scenario1 [''5'', ''--b'', ''2.0''])
        = Inr [(''a'', PInt 5), (''b'', PFloat 2), (''c'', PStr ''a'')]"
  apply (simp add: parse_scenario1_namespace)
  apply (simp add: call_fresh_def init_scenario1)
  apply (simp add: call_object_def bind_args_def new_object_def rebinds_defs scenario1_def)
  done

text \<open>What \<^verbatim>\<open>set_settings\<close> writes and what it leaves alone.\<close>

lemma set_settings_other:
  "set_settings s vd = Inr s' \<Longrightarrow> a \<notin> fst ` set vd \<Longrightarrow> dict s' a = dict s a"
proof (induction vd arbitrary: s)
  case Nil
  then show ?case by simp
next
  case (Cons kv vd)
  obtain k v where kv: "kv = (k, v)" by (cases kv)
  from Cons.prems kv obtain s1 where s1: "setattr_self s k v = Inr s1"
    and rest: "set_settings s1 vd = Inr s'"
    by (auto split: sum.splits)
  have "dict s1 a = dict s a"
    using s1 Cons.prems(2) kv by (auto simp: setattr_self_def split: if_splits)
  then show ?case using Cons.IH [OF rest] Cons.prems(2) by simp
qed

lemma set_settings_written:
  "set_settings s vd = Inr s' \<Longrightarrow> distinct (map fst vd) \<Longrightarrow> (a, v) \<in> set vd
   \<Longrightarrow> dict s' a = Some v"
proof (induction vd arbitrary: s)
  case Nil
  then show ?case by simp
next
  case (Cons kv vd)
  obtain k w where kv: "kv = (k, w)" by (cases kv)
  from Cons.prems kv obtain s1 where s1: "setattr_self s k w = Inr s1"
    and rest: "set_settings s1 vd = Inr s'"
    by (auto split: sum.splits)
  show ?case
  proof (cases "(a, v) = (k, w)")
    case True
    have "a \<notin> fst ` set vd" using Cons.prems(2) kv True by auto
    then have "dict s' a = dict s1 a" using set_settings_other [OF rest] by simp
    moreover have "dict s1 a = Some v"
      using s1 True by (auto simp: setattr_self_def split: if_splits)
    ultimately show ?thesis by simp
  next
    case False
    then have "(a, v) \<in> set vd" using Cons.prems(3) kv by auto
    then show ?thesis using Cons.IH [OF rest] Cons.prems(2) by simp
  qed
qed

lemma compile_def_distinct:
  "compile_def vs = Inr ps \<Longrightarrow> ps = vs \<and> distinct (''self'' # ps)"
  by (auto simp: compile_def_def split: if_splits)

lemma make_call_params:
  "make_call s0 = Inr s \<Longrightarrow> \<exists>ps. call_params s = Some ps \<and> distinct (''self'' # ps)"
  by (auto simp: make_call_def split: option.splits spec_coll.splits list.splits if_splits sum.splits
           dest!: compile_def_distinct)

lemma bind_args_keys:
  "bind_args ps args kws = Inr bound \<Longrightarrow> map fst bound = ps"
  by (auto simp: bind_args_def Let_def comp_def split: if_splits)

section \<open>Parsing\<close>

text \<open>The copy-back loop: its result, the names it can write, and that it goes through
  again on an object that differs only in attributes it does not read.\<close>

lemma setattr_self_Inr:
  "setattr_self s a v = Inr s1 \<Longrightarrow> s1 = s\<lparr>dict := (dict s)(a \<mapsto> v)\<rparr> \<and> \<not> reserved a
     \<and> \<not> rebinds s ''__setattr__''"
  by (auto simp: setattr_self_def split: if_splits)

lemma copy_back_result:
  "copy_back s names = Inr s' \<Longrightarrow> settings s = Some n \<Longrightarrow>
     s' = s\<lparr>dict := copied (dict s) n names\<rparr>"
proof (induction names arbitrary: s)
  case Nil
  then show ?case by (simp add: copied_def)
next
  case (Cons a as)
  show ?case
  proof (cases "map_of n a")
    case None
    then have "copy_back s as = Inr s'" using Cons.prems by simp
    then have "s' = s\<lparr>dict := copied (dict s) n as\<rparr>" using Cons.IH Cons.prems(2) by blast
    moreover have "copied (dict s) n as = copied (dict s) n (a # as)"
      using None by (auto simp: copied_def fun_eq_iff)
    ultimately show ?thesis by simp
  next
    case (Some v)
    then obtain s1 where s1: "setattr_self s a v = Inr s1" and rest: "copy_back s1 as = Inr s'"
      using Cons.prems by (auto split: sum.splits)
    have s1_eq: "s1 = s\<lparr>dict := (dict s)(a \<mapsto> v)\<rparr>" using setattr_self_Inr [OF s1] by simp
    then have "settings s1 = Some n" using Cons.prems(2) by simp
    then have "s' = s1\<lparr>dict := copied (dict s1) n as\<rparr>" using Cons.IH [OF rest] by blast
    moreover have "copied (dict s1) n as = copied (dict s) n (a # as)"
      using Some s1_eq by (auto simp: copied_def fun_eq_iff)
    ultimately show ?thesis using s1_eq by simp
  qed
qed

lemma reserved_setattr: "reserved ''__setattr__''"
  by (simp add: reserved_def)



lemma copy_back_not_reserved:
  "copy_back s names = Inr s' \<Longrightarrow> settings s = Some n \<Longrightarrow> a \<in> set names
   \<Longrightarrow> map_of n a \<noteq> None \<Longrightarrow> \<not> reserved a"
proof (induction names arbitrary: s)
  case Nil
  then show ?case by simp
next
  case (Cons b bs)
  show ?case
  proof (cases "map_of n b")
    case None
    then have "copy_back s bs = Inr s'" and "a \<in> set bs"
      using Cons.prems by auto
    then show ?thesis using Cons.IH Cons.prems(2,4) by blast
  next
    case (Some v)
    then obtain s1 where s1: "setattr_self s b v = Inr s1" and rest: "copy_back s1 bs = Inr s'"
      using Cons.prems by (auto split: sum.splits)
    note f = setattr_self_Inr [OF s1]
    show ?thesis
    proof (cases "a = b")
      case True
      then show ?thesis using f by simp
    next
      case False
      then have "a \<in> set bs" using Cons.prems(3) by simp
      moreover have "settings s1 = Some n" using f Cons.prems(2) by simp
      ultimately show ?thesis using Cons.IH [OF rest] Cons.prems(4) by blast
    qed
  qed
qed

lemma parse_args_Inr:
  assumes "parse_args argv s args = Inr (s', n)"
  shows "\<exists>p ann. parser s = Some p \<and> p_annotations s = Some ann
           \<and> argparse_parse_args p (case args of None \<Rightarrow> argv | Some l \<Rightarrow> l) = Inr n
           \<and> copy_back (s\<lparr>settings := Some n\<rparr>) (map fst ann) = Inr s'
           \<and> s' = s\<lparr>settings := Some n, dict := copied (dict s) n (map fst ann)\<rparr>"
proof -
  from assms obtain p ann n0 where p: "parser s = Some p" and ann: "p_annotations s = Some ann"
    and n0: "argparse_parse_args p (case args of None \<Rightarrow> argv | Some l \<Rightarrow> l) = Inr n0"
    and cb: "copy_back (s\<lparr>settings := Some n0\<rparr>) (map fst ann) = Inr s'"
    and st: "settings s' = Some n"
    by (auto simp: parse_args_def split: option.splits sum.splits if_splits)
  have eq: "s' = s\<lparr>settings := Some n0, dict := copied (dict s) n0 (map fst ann)\<rparr>"
    using copy_back_result [OF cb, of n0] by simp
  then have "n0 = n" using st by simp
  then show ?thesis using p ann n0 cb eq by simp
qed





text \<open>The declaration \<^verbatim>\<open>flag: bool = d\<close>: construction, and the parses with and without
  the flag, from any earlier namespace and attributes.\<close>

lemma init_flag_decl: "init [] (flag_decl d) (ParseBool False) = Inr (flag_object d)"
  apply (simp add: init_def flag_decl_def setup_defs flag_object_def)
  apply (simp add: make_call_defs)
  apply (simp add: make_parser_defs)
  done

lemma parse_flag_given:
  "parse_args argv (flag_object d\<lparr>settings := st, dict := m\<rparr>) (Some [''--flag''])
     = (if m ''__setattr__'' = None
        then Inr (flag_object d\<lparr>settings := Some [(''flag'', PBool (\<not> d))],
                                 dict := m(''flag'' \<mapsto> PBool (\<not> d))\<rparr>,
                  [(''flag'', PBool (\<not> d))])
        else Inl Unmodelled)"
  apply (simp add: flag_object_def new_object_def)
  apply (simp add: parse_defs help_action_def rebinds_defs flag_decl_def)
  done

lemma parse_flag_absent:
  "parse_args argv (flag_object d\<lparr>settings := st, dict := m\<rparr>) (Some [])
     = (if m ''__setattr__'' = None
        then Inr (flag_object d\<lparr>settings := Some [(''flag'', PBool d)],
                                 dict := m(''flag'' \<mapsto> PBool d)\<rparr>,
                  [(''flag'', PBool d)])
        else Inl Unmodelled)"
  apply (simp add: flag_object_def new_object_def)
  apply (simp add: parse_defs help_action_def rebinds_defs flag_decl_def)
  done

lemma flag_object_fresh:
  "flag_object d = flag_object d\<lparr>settings := None, dict := Map.empty\<rparr>"
  by (simp add: flag_object_def new_object_def)



text \<open>Registering the spec of a boolean field appends a \<^verbatim>\<open>store_const\<close> action whose
  constant is the negated default, and the flag finds that action.\<close>

lemma find_last:
  "\<not> list_ex P xs \<Longrightarrow> P a \<Longrightarrow> find P (xs @ [a]) = Some a"
  by (induction xs) auto

lemma add_argument_toggle:
  assumes "add_argument p0 (add_arg_format name dflt (PType TBool) positional) = Inr p"
  shows "p = p0 @ [\<lparr>option_strings = [''--'' @ name], dest = option_dest (''--'' @ name),
                    a_kind = StoreConst, a_default = dflt, a_type = PNone,
                    a_const = PBool (\<not> truthy dflt)\<rparr>]
         \<and> \<not> list_ex (\<lambda>b. ''--'' @ name \<in> set (option_strings b)) p0"
  using assms
  by (simp add: add_argument_def add_arg_format_def Let_def split: if_splits)

lemma consume_toggle:
  assumes "add_argument p0 (add_arg_format name dflt (PType TBool) positional) = Inr p"
  shows "consume p st [''--'' @ name] =
           Inr (st\<lparr>ns := AList.update (option_dest (''--'' @ name)) (PBool (\<not> truthy dflt)) (ns st),
                   seen := option_dest (''--'' @ name) # seen st\<rparr>)"
proof -
  note a = add_argument_toggle [OF assms]
  have "find (\<lambda>b. ''--'' @ name \<in> set (option_strings b)) p
        = Some \<lparr>option_strings = [''--'' @ name], dest = option_dest (''--'' @ name),
                    a_kind = StoreConst, a_default = dflt, a_type = PNone,
                    a_const = PBool (\<not> truthy dflt)\<rparr>"
    using a by (simp add: find_last)
  then show ?thesis by (simp add: classify_def)
qed

text \<open>
  Claim C1. For a field of type \<^verbatim>\<open>bool\<close> the builder returns the flag \<^verbatim>\<open>--name\<close> with the
  action \<^verbatim>\<open>store_const\<close> and the constant \<^verbatim>\<open>not default\<close>; on whatever parser the spec
  is registered, the token \<^verbatim>\<open>--name\<close> stores that constant under the field's destination
  and consumes no value. For the declaration \<^verbatim>\<open>flag: bool = d\<close>, parsing \<^verbatim>\<open>['--flag']\<close>
  yields \<^verbatim>\<open>flag = not d\<close> (true for the default false, false for the default true) and
  parsing \<^verbatim>\<open>[]\<close> yields \<^verbatim>\<open>flag = d\<close>, in the namespace and as attribute of the object.
\<close>

theorem C1_bool_flag_toggles:
  "add_arg_format name dflt (PType TBool) positional
     = (''--'' @ name, [(''default'', dflt), (''action'', PStr ''store_const''),
                        (''const'', PBool (\<not> truthy dflt))])
   \<and> (add_argument p0 (add_arg_format name dflt (PType TBool) positional) = Inr p \<longrightarrow>
        consume p st [''--'' @ name] =
          Inr (st\<lparr>ns := AList.update (option_dest (''--'' @ name)) (PBool (\<not> truthy dflt)) (ns st),
                  seen := option_dest (''--'' @ name) # seen st\<rparr>))
   \<and> parse_fresh (flag_decl d) [''--flag'']
       = Inr (flag_object d\<lparr>settings := Some [(''flag'', PBool (\<not> d))],
                            dict := [''flag'' \<mapsto> PBool (\<not> d)]\<rparr>, [(''flag'', PBool (\<not> d))])
   \<and> parse_fresh (flag_decl d) []
       = Inr (flag_object d\<lparr>settings := Some [(''flag'', PBool d)],
                            dict := [''flag'' \<mapsto> PBool d]\<rparr>, [(''flag'', PBool d)])"
proof (intro conjI impI)
  show "add_arg_format name dflt (PType TBool) positional
     = (''--'' @ name, [(''default'', dflt), (''action'', PStr ''store_const''),
                        (''const'', PBool (\<not> truthy dflt))])"
    by (simp add: add_arg_format_def)
next
  assume "add_argument p0 (add_arg_format name dflt (PType TBool) positional) = Inr p"
  then show "consume p st [''--'' @ name] =
          Inr (st\<lparr>ns := AList.update (option_dest (''--'' @ name)) (PBool (\<not> truthy dflt)) (ns st),
                  seen := option_dest (''--'' @ name) # seen st\<rparr>)"
    by (rule consume_toggle)
next
  have fresh: "parse_fresh (flag_decl d) toks
          = parse_args [] (flag_object d\<lparr>settings := None, dict := Map.empty\<rparr>) (Some toks)"
    for toks
    using flag_object_fresh [of d] by (simp add: parse_fresh_def init_flag_decl)
  show "parse_fresh (flag_decl d) [''--flag'']
       = Inr (flag_object d\<lparr>settings := Some [(''flag'', PBool (\<not> d))],
                            dict := [''flag'' \<mapsto> PBool (\<not> d)]\<rparr>, [(''flag'', PBool (\<not> d))])"
    by (simp add: fresh parse_flag_given)
  show "parse_fresh (flag_decl d) []
       = Inr (flag_object d\<lparr>settings := Some [(''flag'', PBool d)],
                            dict := [''flag'' \<mapsto> PBool d]\<rparr>, [(''flag'', PBool d)])"
    by (simp add: fresh parse_flag_absent)
qed

text \<open>The spec of \<^verbatim>\<open>flag: bool = True\<close> on a new parser.\<close>

lemma add_argument_flag_true:
  "add_argument ArgumentParser (add_arg_format ''flag'' (PBool True) (PType TBool) False)
     = Inr [help_action,
            \<lparr>option_strings = [''--flag''], dest = ''flag'', a_kind = StoreConst,
             a_default = PBool True, a_type = PNone, a_const = PBool False\<rparr>]"
  by (simp add: make_parser_defs add_arg_format_def)

theorem C1_bool_flag_toggles_witness:
  "consume [help_action,
            \<lparr>option_strings = [''--flag''], dest = ''flag'', a_kind = StoreConst,
             a_default = PBool True, a_type = PNone, a_const = PBool False\<rparr>]
       \<lparr>ns = [(''flag'', PBool True)], pending = [], seen = [], extras = False\<rparr> [''--flag'']
     = Inr \<lparr>ns = [(''flag'', PBool False)], pending = [], seen = [''flag''], extras = False\<rparr>"
  using C1_bool_flag_toggles [of "''flag''" "PBool True" False ArgumentParser _
      "\<lparr>ns = [(''flag'', PBool True)], pending = [], seen = [], extras = False\<rparr>",
      THEN conjunct2, THEN conjunct1, rule_format, OF add_argument_flag_true]
  by (simp add: option_dest_def)


section \<open>The call of a constructed object\<close>

text \<open>What construction leaves behind: the class, the parameters of the compiled
  function, none of them \<^verbatim>\<open>self\<close> and none twice, and no attribute under a reserved
  name.\<close>

lemma setup_config_keeps:
  "setup_config s = Inr s1 \<Longrightarrow> cls s1 = cls s \<and> dict s1 = dict s \<and> plain_class (cls s)"
  by (auto simp: setup_config_def Let_def rebinds_def split: if_splits)

lemma make_call_keeps:
  "make_call s = Inr s2 \<Longrightarrow> cls s2 = cls s \<and> dict s2 = dict s
     \<and> (\<exists>ps. call_params s2 = Some ps \<and> distinct (''self'' # ps))"
  by (auto simp: make_call_def split: option.splits spec_coll.splits list.splits if_splits sum.splits
           dest!: compile_def_distinct)

lemma make_parser_keeps:
  "make_parser s = Inr s3 \<Longrightarrow> cls s3 = cls s \<and> dict s3 = dict s \<and> call_params s3 = call_params s"
  by (auto simp: make_parser_def Let_def
           split: option.splits spec_coll.splits list.splits if_splits sum.splits)

lemma parse_args_keeps:
  assumes "parse_args argv s args = Inr (s4, n)"
  shows "cls s4 = cls s \<and> call_params s4 = call_params s
         \<and> (\<forall>a. reserved a \<longrightarrow> dict s4 a = dict s a)"
proof -
  from parse_args_Inr [OF assms] obtain p ann where p: "parser s = Some p"
    and ann: "p_annotations s = Some ann"
    and n: "argparse_parse_args p (case args of None \<Rightarrow> argv | Some l \<Rightarrow> l) = Inr n"
    and cb: "copy_back (s\<lparr>settings := Some n\<rparr>) (map fst ann) = Inr s4"
    and eq: "s4 = s\<lparr>settings := Some n, dict := copied (dict s) n (map fst ann)\<rparr>"
    by blast
  have "dict s4 a = dict s a" if "reserved a" for a
  proof (cases "a \<in> set (map fst ann) \<and> map_of n a \<noteq> None")
    case True
    then have "\<not> reserved a" using copy_back_not_reserved [OF cb, of n a] by simp
    then show ?thesis using that by simp
  next
    case False
    then show ?thesis using eq by (auto simp: copied_def)
  qed
  then show ?thesis using eq by simp
qed

lemma init_invariant:
  assumes "init argv c parse = Inr s"
  shows "cls s = c \<and> plain_class c
         \<and> (\<exists>ps. call_params s = Some ps \<and> distinct (''self'' # ps))
         \<and> (\<forall>a. reserved a \<longrightarrow> dict s a = None)"
proof -
  from assms obtain s1 s2 s3 where s1: "setup_config (new_object c) = Inr s1"
    and s2: "make_call s1 = Inr s2" and s3: "make_parser s2 = Inr s3"
    and last: "s = s3 \<or> (\<exists>n. parse_args argv s3 (parse_tokens parse) = Inr (s, n))"
    by (auto simp: init_def split: if_splits sum.splits prod.splits)
  note k1 = setup_config_keeps [OF s1] and k2 = make_call_keeps [OF s2]
    and k3 = make_parser_keeps [OF s3]
  have c3: "cls s3 = c" and d3: "dict s3 = Map.empty" and pc: "plain_class c"
    using k1 k2 k3 by (simp_all add: new_object_def)
  from k2 k3 obtain ps where ps: "call_params s3 = Some ps" "distinct (''self'' # ps)"
    by auto
  from last show ?thesis
  proof
    assume "s = s3"
    then show ?thesis using c3 d3 pc ps by simp
  next
    assume "\<exists>n. parse_args argv s3 (parse_tokens parse) = Inr (s, n)"
    then obtain n where "parse_args argv s3 (parse_tokens parse) = Inr (s, n)" by blast
    from parse_args_keeps [OF this] show ?thesis using c3 d3 pc ps by simp
  qed
qed

text \<open>Writing names that are not reserved goes through, and a call with one positional
  argument for each parameter binds them in order.\<close>

lemma not_reserved_self: "\<not> reserved ''self''"
  by (simp add: reserved_def machinery_names_def)

lemma set_settings_succeeds:
  "list_all (\<lambda>kv. \<not> reserved (fst kv)) vd \<Longrightarrow> \<not> rebinds s ''__setattr__''
   \<Longrightarrow> \<exists>s'. set_settings s vd = Inr s'"
proof (induction vd arbitrary: s)
  case Nil
  then show ?case by simp
next
  case (Cons kv vd)
  obtain k v where kv: "kv = (k, v)" by (cases kv)
  have nr: "\<not> reserved k" using Cons.prems(1) kv by simp
  then have k_ne: "k \<noteq> ''__setattr__''" using reserved_setattr by auto
  have step: "setattr_self s k v = Inr (s\<lparr>dict := (dict s)(k \<mapsto> v)\<rparr>)"
    using nr Cons.prems(2) by (simp add: setattr_self_def)
  have "\<not> rebinds (s\<lparr>dict := (dict s)(k \<mapsto> v)\<rparr>) ''__setattr__''"
    using Cons.prems(2) k_ne by (simp add: rebinds_def)
  moreover have "list_all (\<lambda>kv. \<not> reserved (fst kv)) vd" using Cons.prems(1) by simp
  ultimately have "\<exists>s'. set_settings (s\<lparr>dict := (dict s)(k \<mapsto> v)\<rparr>) vd = Inr s'"
    by (rule Cons.IH [rotated])
  then show ?case using step kv by simp
qed

lemma bound_zip:
  "distinct ps \<Longrightarrow> length args = length ps
   \<Longrightarrow> map (\<lambda>p. (p, the (map_of (zip ps args) p))) ps = zip ps args"
proof (induction ps arbitrary: args)
  case Nil
  then show ?case by simp
next
  case (Cons p ps)
  then obtain a as where args: "args = a # as" by (cases args) auto
  have "map (\<lambda>q. (q, the (if q = p then Some a else map_of (zip ps as) q))) ps
        = map (\<lambda>q. (q, the (map_of (zip ps as) q))) ps"
    using Cons.prems(1) by (intro map_cong) auto
  also have "\<dots> = zip ps as"
    using Cons.IH [of as] Cons.prems args by simp
  finally show ?case using args by simp
qed

lemma bind_args_positional:
  assumes "distinct ps" and "length args = length ps"
  shows "bind_args ps args [] = Inr (zip ps args)"
proof -
  have "\<not> list_ex (\<lambda>p. map_of (zip ps args) p = None) ps"
    using assms(2) by (simp add: list_ex_iff map_of_zip_is_None)
  then show ?thesis using assms by (simp add: bind_args_def Let_def bound_zip)
qed

lemma plain_class_no_setattr:
  "plain_class c \<Longrightarrow> map_of (cls_vars c) ''__setattr__'' = None"
proof (rule ccontr)
  assume pc: "plain_class c" and "map_of (cls_vars c) ''__setattr__'' \<noteq> None"
  then obtain v where "(''__setattr__'', v) \<in> set (cls_vars c)"
    by (auto dest: map_of_SomeD)
  then show False using pc
    by (auto simp: plain_class_def bookkeeping_names_def list_all_iff)
qed

text \<open>
  Claim C10. Take an object that \<^verbatim>\<open>__init__\<close> has constructed, whose parameters are no
  reserved names and whose class does not rebind \<^verbatim>\<open>set_settings\<close>. The call with one
  positional argument for each parameter returns; afterwards the object has the
  attribute \<^verbatim>\<open>self\<close>, bound to the object itself, although \<^verbatim>\<open>self\<close> is none of the
  parameters, beside one attribute for each parameter with the argument passed. And
  whatever the arguments, positional or keyword, a call that returns has set \<^verbatim>\<open>self\<close>.
\<close>

theorem C10_call_sets_self:
  assumes "init argv c parse = Inr s"
    and "call_params s = Some ps"
    and "list_all (\<lambda>p. \<not> reserved p) ps"
    and "map_of (cls_vars c) ''set_settings'' = None"
    and "length args = length ps"
  shows "(\<exists>s'. call_object s args [] = Inr s'
              \<and> dict s' ''self'' = Some PSelf
              \<and> ''self'' \<notin> set ps
              \<and> map (dict s') ps = map Some args)
         \<and> (\<forall>args' kws' t. call_object s args' kws' = Inr t \<longrightarrow> dict t ''self'' = Some PSelf)"
proof -
  note inv = init_invariant [OF assms(1)]
  have c: "cls s = c" and pc: "plain_class c" and d: "distinct (''self'' # ps)"
    and res: "\<And>a. reserved a \<Longrightarrow> dict s a = None"
    using inv assms(2) by auto
  have nb_set: "\<not> rebinds s ''set_settings''"
    using c pc assms(4) res [of "''set_settings''"]
    by (simp add: rebinds_def reserved_def machinery_names_def)
  have nb_attr: "\<not> rebinds s ''__setattr__''"
    using c pc plain_class_no_setattr [OF pc] res [OF reserved_setattr]
    by (simp add: rebinds_def)
  have written: "dict t ''self'' = Some PSelf" "\<And>p v. (p, v) \<in> set bound \<Longrightarrow> dict t p = Some v"
    if b: "bind_args ps args' kws' = Inr bound"
      and ss: "set_settings s ((''self'', PSelf) # bound) = Inr t" for args' kws' bound t
  proof -
    have keys: "map fst bound = ps" using bind_args_keys [OF b] .
    have dd: "distinct (map fst ((''self'', PSelf) # bound))" using d keys by simp
    show "dict t ''self'' = Some PSelf"
      using set_settings_written [OF ss dd, of "''self''" PSelf] by simp
    show "dict t p = Some v" if "(p, v) \<in> set bound" for p v
      using set_settings_written [OF ss dd, of p v] that by simp
  qed
  have general: "dict t ''self'' = Some PSelf" if "call_object s args' kws' = Inr t"
    for args' kws' t
  proof -
    from that assms(2) obtain bound where "bind_args ps args' kws' = Inr bound"
      and "set_settings s ((''self'', PSelf) # bound) = Inr t"
      by (auto simp: call_object_def split: sum.splits if_splits)
    then show ?thesis by (rule written(1))
  qed
  have b: "bind_args ps args [] = Inr (zip ps args)"
    using d assms(5) by (simp add: bind_args_positional)
  have "list_all (\<lambda>kv. \<not> reserved (fst kv)) ((''self'', PSelf) # zip ps args)"
    using assms(3,5) not_reserved_self
    by (auto simp: list_all_iff dest: set_zip_leftD)
  from set_settings_succeeds [OF this nb_attr]
  obtain s' where ss: "set_settings s ((''self'', PSelf) # zip ps args) = Inr s'" by blast
  have call: "call_object s args [] = Inr s'"
    using assms(2) b ss nb_set c pc by (simp add: call_object_def)
  have "dict s' (ps ! i) = Some (args ! i)" if "i < length ps" for i
  proof -
    have "(ps ! i, args ! i) \<in> set (zip ps args)"
      using that assms(5) by (auto simp: set_zip)
    then show ?thesis by (rule written(2) [OF b ss])
  qed
  then have "map (dict s') ps = map Some args"
    using assms(5) by (simp add: list_eq_iff_nth_eq)
  then show ?thesis using call general written(1) [OF b ss] d by auto
qed

text \<open>The declaration of scenario 1, called as \<^verbatim>\<open>s(5, 2.0, 'a')\<close>.\<close>

theorem C10_call_sets_self_witness:
  "\<exists>s s'. init [] scenario1 (ParseBool False) = Inr s
      \<and> call_object s [PInt 5, PFloat 2, PStr ''a''] [] = Inr s'
      \<and> dict s' ''self'' = Some PSelf
      \<and> map (dict s') [''a'', ''b'', ''c''] = [Some (PInt 5), Some (PFloat 2), Some (PStr ''a'')]"
proof -
  obtain s where s: "init [] scenario1 (ParseBool False) = Inr s"
    and ps: "call_params s = Some [''a'', ''b'', ''c'']"
    by (simp add: init_scenario1)
  have "list_all (\<lambda>p. \<not> reserved p) [''a'', ''b'', ''c'']"
    by (simp add: reserved_def machinery_names_def)
  moreover have "map_of (cls_vars scenario1) ''set_settings'' = None"
    by (simp add: scenario1_def)
  moreover have "length [PInt 5, PFloat 2, PStr ''a''] = length [''a'', ''b'', ''c'']"
    by simp
  ultimately show ?thesis
    using C10_call_sets_self [OF s ps, of "[PInt 5, PFloat 2, PStr ''a'']"] s
    by auto
qed

end
